theory Spec2Isabelle
  imports Complex_Main "HOL-Library.Multiset" "HOL-Library.Sublist"
begin

section \<open>The data model of \<open>src/app/page.tsx\<close>\<close>

text \<open>
  The page is one React component, \<open>Home\<close>. Its listing records are the interface
  \<open>CryptoData\<close>. A field of TypeScript type \<open>number\<close> is modelled as a real number:
  the values come from a JSON document, so they are finite and never NaN. Strings are
  lists of 8-bit characters.
\<close>

record CryptoData =
  id_c :: string
  symbol :: string
  name_c :: string
  image_c :: string
  current_price :: real
  price_change_percentage_24h :: real
  market_cap :: real
  total_volume :: real
  circulating_supply :: real
  ath :: real
  ath_date :: string

definition MEME_COINS :: "string list" where
  "MEME_COINS = [''dogecoin'', ''shiba-inu'', ''pepe'', ''floki'', ''bonk'']"

definition HOT_THRESHOLD :: real where
  "HOT_THRESHOLD = 1000000000"

definition NEW_THRESHOLD :: int where
  "NEW_THRESHOLD = 30"

definition FETCH_TIMEOUT :: int where
  "FETCH_TIMEOUT = 15000"

definition RETRY_DELAY :: int where
  "RETRY_DELAY = 3000"

definition MAX_RETRIES :: int where
  "MAX_RETRIES = 3"

definition AUTO_REFRESH_INTERVAL :: int where
  "AUTO_REFRESH_INTERVAL = 60000"

section \<open>JavaScript arrays\<close>

text \<open>
  A JavaScript array is an object: a variable holds a reference to it, \<open>sort\<close> changes
  the array it is called on, and \<open>filter\<close>, \<open>slice\<close> and the spread \<open>[...a]\<close> build
  a fresh array. The store is the list of all arrays allocated so far and a reference is
  an index into it.
\<close>

type_synonym ref = nat

type_synonym 'a store = "'a list list"

definition deref :: "'a store \<Rightarrow> ref \<Rightarrow> 'a list" where
  "deref h r = (if r < length h then h ! r else [])"

definition alloc :: "'a list \<Rightarrow> 'a store \<Rightarrow> ref \<times> 'a store" where
  "alloc xs h = (length h, h @ [xs])"

text \<open>\<open>a.includes(x)\<close>, on strings: strict equality is equality of the characters.\<close>

primrec array_includes :: "'a list \<Rightarrow> 'a \<Rightarrow> bool" where
  "array_includes [] x = False"
| "array_includes (y # ys) x = (if y = x then True else array_includes ys x)"

text \<open>\<open>a.filter(p)\<close> visits the elements in index order and keeps those \<open>p\<close> accepts.\<close>

primrec keep :: "('a \<Rightarrow> bool) \<Rightarrow> 'a list \<Rightarrow> 'a list" where
  "keep p [] = []"
| "keep p (x # xs) = (if p x then x # keep p xs else keep p xs)"

definition array_filter :: "('a \<Rightarrow> bool) \<Rightarrow> ref \<Rightarrow> 'a store \<Rightarrow> ref \<times> 'a store" where
  "array_filter p r h = alloc (keep p (deref h r)) h"

text \<open>\<open>a.slice(b, e)\<close> for \<open>0 \<le> b \<le> e\<close>: the elements at the indices from \<open>b\<close> up to,
  not including, \<open>e\<close>, as far as the array reaches.\<close>

definition array_slice :: "nat \<Rightarrow> nat \<Rightarrow> ref \<Rightarrow> 'a store \<Rightarrow> ref \<times> 'a store" where
  "array_slice b e r h = alloc (take (e - b) (drop b (deref h r))) h"

text \<open>\<open>[...a]\<close>: a fresh array with the elements of \<open>a\<close>.\<close>

definition array_spread :: "ref \<Rightarrow> 'a store \<Rightarrow> ref \<times> 'a store" where
  "array_spread r h = alloc (deref h r) h"

text \<open>
  \<open>a.sort(cmp)\<close> sorts in place and returns \<open>a\<close> itself. The sort is stable, and
  \<open>cmp x y \<le> 0\<close> leaves \<open>x\<close> before \<open>y\<close>. For a consistent comparator every stable
  sort gives the same array; insertion from the right is one.
\<close>

primrec insert_by :: "('a \<Rightarrow> 'a \<Rightarrow> real) \<Rightarrow> 'a \<Rightarrow> 'a list \<Rightarrow> 'a list" where
  "insert_by cmp x [] = [x]"
| "insert_by cmp x (y # ys) =
     (if cmp x y \<le> 0 then x # y # ys else y # insert_by cmp x ys)"

primrec sort_by :: "('a \<Rightarrow> 'a \<Rightarrow> real) \<Rightarrow> 'a list \<Rightarrow> 'a list" where
  "sort_by cmp [] = []"
| "sort_by cmp (x # xs) = insert_by cmp x (sort_by cmp xs)"

definition array_sort :: "('a \<Rightarrow> 'a \<Rightarrow> real) \<Rightarrow> ref \<Rightarrow> 'a store \<Rightarrow> ref \<times> 'a store" where
  "array_sort cmp r h = (r, h[r := sort_by cmp (deref h r)])"

section \<open>The views: \<open>filterCryptos\<close>\<close>

text \<open>
  The \<open>new\<close> view reads the clock and parses dates, both outside the component. They
  are parameters: \<open>parse_date\<close> gives the time value of \<open>new Date(s)\<close> (\<open>None\<close> for an
  invalid date, which compares false with everything) and \<open>thirtyDaysAgo\<close> is the time
  value of the date the source computes with \<open>setDate\<close>.
\<close>

record dates =
  parse_date :: "string \<Rightarrow> int option"
  thirtyDaysAgo :: int

definition by_change_desc :: "CryptoData \<Rightarrow> CryptoData \<Rightarrow> real" where
  "by_change_desc a b = price_change_percentage_24h b - price_change_percentage_24h a"

definition filterCryptos ::
  "dates \<Rightarrow> string list \<Rightarrow> ref \<Rightarrow> string \<Rightarrow> CryptoData store \<Rightarrow> ref \<times> CryptoData store"
where
  "filterCryptos d favorites cryptoData category h =
    (if category = ''favorites'' then
       array_filter (\<lambda>crypto. array_includes favorites (id_c crypto)) cryptoData h
     else if category = ''hot'' then
       array_filter (\<lambda>crypto. total_volume crypto \<ge> HOT_THRESHOLD) cryptoData h
     else if category = ''new'' then
       array_filter
         (\<lambda>crypto. case parse_date d (ath_date crypto) of
                      None \<Rightarrow> False
                    | Some t \<Rightarrow> t \<ge> thirtyDaysAgo d)
         cryptoData h
     else if category = ''gainers'' then
       (let (copy, h1) = array_spread cryptoData h;
            (sorted_copy, h2) = array_sort by_change_desc copy h1
        in array_slice 0 10 sorted_copy h2)
     else if category = ''meme'' then
       array_filter (\<lambda>crypto. array_includes MEME_COINS (id_c crypto)) cryptoData h
     else array_slice 0 10 cryptoData h)"

section \<open>The favorites\<close>

definition toggleFavorite :: "string \<Rightarrow> string list \<Rightarrow> string list" where
  "toggleFavorite cryptoId prev =
     (if array_includes prev cryptoId then keep (\<lambda>i. i \<noteq> cryptoId) prev else prev @ [cryptoId])"

section \<open>The component state\<close>

text \<open>The six \<open>useState\<close> cells of \<open>Home\<close>.\<close>

record Home =
  cryptoData :: "CryptoData list"
  favorites :: "string list"
  loading :: bool
  error :: "string option"
  lastFetchTime :: int
  isRefreshing :: bool

section \<open>The network and the clock\<close>

text \<open>
  What \<open>response.json()\<close> does with the body: it resolves with an array, resolves with
  a JSON value that is no array, or rejects with a \<open>SyntaxError\<close> (the body is no JSON
  text), whose message the engine chooses.
\<close>

datatype body = JsonArray "CryptoData list" | JsonOther | NotJson string

record response =
  status :: nat
  body :: body

text \<open>\<open>response.ok\<close> is the Fetch standard's: a status from 200 to 299.\<close>

definition ok :: "response \<Rightarrow> bool" where
  "ok r = (200 \<le> status r \<and> status r \<le> 299)"

text \<open>
  The promise of \<open>fetch\<close>, left alone, resolves with a response or rejects with a
  \<open>TypeError\<close> (a network failure) carrying a message, \<open>latency\<close> milliseconds after
  the request was issued.
\<close>

datatype settled = Resolved response | Rejected string

record request =
  latency :: int
  result :: settled

text \<open>
  A thrown value: an \<open>Error\<close> object with its \<open>name\<close> and \<open>message\<close>, or anything
  else.
\<close>

datatype thrown = ErrorObj string string | NonError

text \<open>
  The environment of the component: the clock that \<open>Date.now()\<close> reads, in
  milliseconds, and the times at which requests were issued so far. Waiting moves the
  clock.
\<close>

record env =
  clock :: int
  requests :: "int list"

text \<open>The decimal digits of a status, as the template literal writes them.\<close>

fun string_of_nat :: "nat \<Rightarrow> string" where
  "string_of_nat n =
     (if n < 10 then [''0123456789'' ! n]
      else string_of_nat (n div 10) @ [''0123456789'' ! (n mod 10)])"

declare string_of_nat.simps [simp del]

section \<open>The fetcher: \<open>fetchCryptoData\<close>\<close>

text \<open>
  Lines 58 to 78: the request races a timer of \<open>FETCH_TIMEOUT\<close> milliseconds that
  aborts it. A promise that settles before the timer fires wins; otherwise \<open>fetch\<close>
  rejects with an \<open>AbortError\<close> when the timer fires. The result is the time the
  \<open>await\<close> took and what it gave.
\<close>

definition await_fetch :: "request \<Rightarrow> int \<times> (thrown + response)" where
  "await_fetch q =
     (if latency q < FETCH_TIMEOUT then
        (latency q,
         case result q of
           Resolved r \<Rightarrow> Inr r
         | Rejected m \<Rightarrow> Inl (ErrorObj ''TypeError'' m))
      else (FETCH_TIMEOUT, Inl (ErrorObj ''AbortError'' ''The operation was aborted.'')))"

text \<open>Lines 82 to 93: the checks on a response, each \<open>throw\<close> a left value.\<close>

definition check_response :: "response \<Rightarrow> thrown + CryptoData list" where
  "check_response r =
     (if status r = 429 then
        Inl (ErrorObj ''Error'' ''Rate limit exceeded. Please wait a moment before refreshing.'')
      else if \<not> ok r then
        Inl (ErrorObj ''Error'' (''Failed to fetch data (HTTP '' @ string_of_nat (status r) @ '')''))
      else
        (case body r of
           NotJson m \<Rightarrow> Inl (ErrorObj ''SyntaxError'' m)
         | JsonOther \<Rightarrow> Inl (ErrorObj ''Error'' ''Invalid data received from the server'')
         | JsonArray data \<Rightarrow> Inr data))"

text \<open>
  Line 126: \<open>useCallback\<close> makes a new callback only when \<open>lastFetchTime\<close> or
  \<open>cryptoData.length\<close> has changed. Inside the callback both names stand for the
  values of the render that made it, whatever the state has become since; the setters
  always write the live state.
\<close>

record callback =
  seen_lastFetchTime :: int
  seen_length :: nat

definition useCallback :: "Home \<Rightarrow> callback" where
  "useCallback st =
     \<lparr>seen_lastFetchTime = lastFetchTime st, seen_length = length (cryptoData st)\<rparr>"

text \<open>Lines 45 to 49: the check that skips an automatic fetch.\<close>

definition skipped :: "bool \<Rightarrow> callback \<Rightarrow> int \<Rightarrow> bool" where
  "skipped isManualRefresh cb now =
     (\<not> isManualRefresh \<and> now - seen_lastFetchTime cb < 10000 \<and> seen_length cb > 0)"

text \<open>Lines 51 to 56.\<close>

definition begin_fetch :: "bool \<Rightarrow> Home \<Rightarrow> Home" where
  "begin_fetch isManualRefresh st =
     (if isManualRefresh then st\<lparr>isRefreshing := True\<rparr> else st\<lparr>loading := True\<rparr>)
       \<lparr>error := None\<rparr>"

text \<open>Lines 119 to 125.\<close>

definition finally_block :: "bool \<Rightarrow> Home \<Rightarrow> Home" where
  "finally_block isManualRefresh st =
     (if isManualRefresh then st\<lparr>isRefreshing := False\<rparr> else st\<lparr>loading := False\<rparr>)"

text \<open>Lines 95 to 97.\<close>

definition succeed :: "CryptoData list \<Rightarrow> int \<Rightarrow> Home \<Rightarrow> Home" where
  "succeed data now st = st\<lparr>cryptoData := data, lastFetchTime := now, error := None\<rparr>"

text \<open>
  The end of the \<open>catch\<close> block: \<open>setError\<close> with the message, then lines 115 to 118,
  where \<open>len\<close> is the \<open>cryptoData.length\<close> of the callback.
\<close>

definition fail_with :: "string \<Rightarrow> nat \<Rightarrow> Home \<Rightarrow> Home" where
  "fail_with msg len st =
     (let st' = st\<lparr>error := Some msg\<rparr>
      in if len = 0 then st'\<lparr>cryptoData := []\<rparr> else st')"

text \<open>
  The callback \<open>cb\<close>, called in the state \<open>st\<close>. \<open>net k\<close> is the fate of the \<open>k\<close>-th
  request the page issues. The check of line 47 and the test of line 116 read the
  callback's values; \<open>st\<close> is the live state the setters write. The retry is the
  recursive call of line 105, of the same callback, after \<open>RETRY_DELAY\<close> milliseconds;
  the \<open>finally\<close> block of the caller runs as well. One call is followed from its start
  to its end; what another call does to the state in between is not part of it.
\<close>

function fetchCryptoData ::
  "callback \<Rightarrow> (nat \<Rightarrow> request) \<Rightarrow> int \<Rightarrow> bool \<Rightarrow> Home \<times> env \<Rightarrow> Home \<times> env"
where
  "fetchCryptoData cb net retries isManualRefresh (st, w) =
    (let now = clock w in
     if skipped isManualRefresh cb now then (st, w)
     else
       (let st1 = begin_fetch isManualRefresh st;
            (elapsed, answer) = await_fetch (net (length (requests w)));
            w1 = w\<lparr>requests := requests w @ [now], clock := now + elapsed\<rparr>
        in case (case answer of Inl e \<Rightarrow> Inl e | Inr r \<Rightarrow> check_response r) of
             Inr data \<Rightarrow> (finally_block isManualRefresh (succeed data now st1), w1)
           | Inl (ErrorObj name message) \<Rightarrow>
               if name = ''AbortError'' then
                 if retries > 0 then
                   (case fetchCryptoData cb net (retries - 1) isManualRefresh
                           (st1, w1\<lparr>clock := clock w1 + RETRY_DELAY\<rparr>) of
                      (st2, w2) \<Rightarrow> (finally_block isManualRefresh st2, w2))
                 else
                   (finally_block isManualRefresh
                      (fail_with ''Request timed out. Please try again.''
                         (seen_length cb) st1), w1)
               else
                 (finally_block isManualRefresh
                    (fail_with message (seen_length cb) st1), w1)
           | Inl NonError \<Rightarrow>
               (finally_block isManualRefresh
                  (fail_with ''An unexpected error occurred. Please try again.''
                     (seen_length cb) st1), w1)))"
  by pat_completeness auto
termination
  by (relation "measure (\<lambda>(cb, net, retries, isManualRefresh, s). nat retries)") auto

declare fetchCryptoData.simps [simp del]

text \<open>Line 256: the \<open>disabled\<close> attribute of the Refresh button, rendered at \<open>now\<close>.\<close>

definition refresh_disabled :: "Home \<Rightarrow> int \<Rightarrow> bool" where
  "refresh_disabled st now = (isRefreshing st \<or> now - lastFetchTime st < 10000)"

text \<open>Line 254: the click calls the callback of the render on the screen.\<close>

definition refresh_click :: "(nat \<Rightarrow> request) \<Rightarrow> Home \<times> env \<Rightarrow> Home \<times> env" where
  "refresh_click net s = fetchCryptoData (useCallback (fst s)) net MAX_RETRIES True s"

section \<open>The scheduler: the effect of lines 128 to 143\<close>

text \<open>
  Every run of the effect has its own variable \<open>intervalId\<close> and its own \<open>initFetch\<close>,
  which calls \<open>fetchCryptoData()\<close> and is suspended at its \<open>await\<close> until that call
  has settled; the run returns its cleanup. What happens next is a sequence of events of
  the page's event loop, each naming the run it belongs to (the runs are counted from
  0). The scheduler's state holds the runs, the interval timers that are set
  (identifier and period; \<open>setInterval\<close> returns a fresh positive identifier), and how
  often the scheduler has called \<open>fetchCryptoData()\<close>.
\<close>

record effect_run =
  intervalId :: "nat option"
  awaiting :: bool

record scheduler =
  runs :: "effect_run list"
  timers :: "(nat \<times> int) list"
  next_timer :: nat
  calls :: nat

datatype event =
    Run_effect
  | Fetch_settled nat
  | Tick nat
  | Cleanup nat

definition clearInterval :: "nat \<Rightarrow> (nat \<times> int) list \<Rightarrow> (nat \<times> int) list" where
  "clearInterval i ts = filter (\<lambda>t. fst t \<noteq> i) ts"

fun step :: "scheduler \<Rightarrow> event \<Rightarrow> scheduler" where
  "step s Run_effect =
     s\<lparr>runs := runs s @ [\<lparr>intervalId = None, awaiting = True\<rparr>], calls := calls s + 1\<rparr>"
| "step s (Fetch_settled k) =
     (if k < length (runs s) \<and> awaiting (runs s ! k) then
        s\<lparr>runs := (runs s)[k := \<lparr>intervalId = Some (next_timer s), awaiting = False\<rparr>],
          timers := timers s @ [(next_timer s, AUTO_REFRESH_INTERVAL)],
          next_timer := next_timer s + 1\<rparr>
      else s)"
| "step s (Tick i) =
     (if i \<in> fst ` set (timers s) then s\<lparr>calls := calls s + 1\<rparr> else s)"
| "step s (Cleanup k) =
     (if k < length (runs s) then
        (case intervalId (runs s ! k) of
           None \<Rightarrow> s
         | Some i \<Rightarrow> if i \<noteq> 0 then s\<lparr>timers := clearInterval i (timers s)\<rparr> else s)
      else s)"

definition run :: "scheduler \<Rightarrow> event list \<Rightarrow> scheduler" where
  "run s es = foldl step s es"

text \<open>The page before the component is mounted: no effect has run, no timer is set.\<close>

definition unmounted :: scheduler where
  "unmounted = \<lparr>runs = [], timers = [], next_timer = 1, calls = 0\<rparr>"

section \<open>Local storage and JSON\<close>

text \<open>
  \<open>localStorage\<close> maps keys to strings. \<open>JSON.stringify\<close> on an array of strings
  writes the quoted elements between brackets, separated by commas; a quoted string
  escapes the quotation mark, the backslash and the control characters
  (\<open>QuoteJSONString\<close> of ECMA-262). A character is a code unit below 256.
\<close>

type_synonym storage = "string \<rightharpoonup> string"

definition hex_digit :: "nat \<Rightarrow> char" where
  "hex_digit n = ''0123456789abcdef'' ! n"

definition quote_char :: "char \<Rightarrow> string" where
  "quote_char c =
     (if c = CHR 0x22 then [CHR 0x5C, CHR 0x22]
      else if c = CHR 0x5C then [CHR 0x5C, CHR 0x5C]
      else if c = CHR 0x08 then [CHR 0x5C, CHR ''b'']
      else if c = CHR 0x0C then [CHR 0x5C, CHR ''f'']
      else if c = CHR 0x0A then [CHR 0x5C, CHR ''n'']
      else if c = CHR 0x0D then [CHR 0x5C, CHR ''r'']
      else if c = CHR 0x09 then [CHR 0x5C, CHR ''t'']
      else if (of_char c :: nat) < 32 then
        [CHR 0x5C, CHR ''u'', CHR ''0'', CHR ''0'',
         hex_digit (of_char c div 16), hex_digit (of_char c mod 16)]
      else [c])"

definition quote :: "string \<Rightarrow> string" where
  "quote s = CHR 0x22 # concat (map quote_char s) @ [CHR 0x22]"

fun join_commas :: "string list \<Rightarrow> string" where
  "join_commas [] = []"
| "join_commas [x] = x"
| "join_commas (x # y # ys) = x @ '','' @ join_commas (y # ys)"

definition JSON_stringify :: "string list \<Rightarrow> string" where
  "JSON_stringify xs = ''['' @ join_commas (map quote xs) @ '']''"

text \<open>
  \<open>JSON.parse\<close>, as far as the favorites need it: the result is \<open>Some xs\<close> when the
  text is a JSON array of strings, and \<open>None\<close> for everything else (a
  \<open>SyntaxError\<close>, another JSON value, or a \<open>\u\<close> escape of a code unit above 255).
\<close>

fun skip_ws :: "string \<Rightarrow> string" where
  "skip_ws [] = []"
| "skip_ws (c # cs) =
     (if c = CHR 0x20 \<or> c = CHR 0x09 \<or> c = CHR 0x0A \<or> c = CHR 0x0D then skip_ws cs
      else c # cs)"

definition hex_value :: "char \<Rightarrow> nat option" where
  "hex_value c =
     (let n = (of_char c :: nat)
      in if 48 \<le> n \<and> n \<le> 57 then Some (n - 48)
         else if 97 \<le> n \<and> n \<le> 102 then Some (n - 87)
         else if 65 \<le> n \<and> n \<le> 70 then Some (n - 55)
         else None)"

definition hex4 :: "char \<Rightarrow> char \<Rightarrow> char \<Rightarrow> char \<Rightarrow> nat option" where
  "hex4 a b c d =
     (case (hex_value a, hex_value b, hex_value c, hex_value d) of
        (Some p, Some q, Some r, Some s) \<Rightarrow> Some (((p * 16 + q) * 16 + r) * 16 + s)
      | _ \<Rightarrow> None)"

definition unescape :: "char \<Rightarrow> char option" where
  "unescape e =
     (if e = CHR 0x22 then Some (CHR 0x22)
      else if e = CHR 0x5C then Some (CHR 0x5C)
      else if e = CHR ''/'' then Some (CHR ''/'')
      else if e = CHR ''b'' then Some (CHR 0x08)
      else if e = CHR ''f'' then Some (CHR 0x0C)
      else if e = CHR ''n'' then Some (CHR 0x0A)
      else if e = CHR ''r'' then Some (CHR 0x0D)
      else if e = CHR ''t'' then Some (CHR 0x09)
      else None)"

definition cons_fst :: "'a \<Rightarrow> ('a list \<times> 'b) option \<Rightarrow> ('a list \<times> 'b) option" where
  "cons_fst x p = map_option (\<lambda>(xs, r). (x # xs, r)) p"

text \<open>The characters of a string literal after its opening quotation mark, and the
  text after the closing one.\<close>

fun parse_chars :: "string \<Rightarrow> (string \<times> string) option" where
  "parse_chars [] = None"
| "parse_chars (c # cs) =
     (if c = CHR 0x22 then Some ([], cs)
      else if c = CHR 0x5C then
        (case cs of
           [] \<Rightarrow> None
         | e # es \<Rightarrow>
             if e = CHR ''u'' then
               (case es of
                  a # b # c' # d # rest \<Rightarrow>
                    (case hex4 a b c' d of
                       None \<Rightarrow> None
                     | Some v \<Rightarrow> if v < 256 then cons_fst (char_of v) (parse_chars rest) else None)
                | _ \<Rightarrow> None)
             else
               (case unescape e of
                  None \<Rightarrow> None
                | Some x \<Rightarrow> cons_fst x (parse_chars es)))
      else if (of_char c :: nat) < 32 then None
      else cons_fst c (parse_chars cs))"

lemma parse_chars_shorter: "parse_chars s = Some (x, r) \<Longrightarrow> length r < length s"
proof (induction "length s" arbitrary: s x r rule: less_induct)
  case less
  have IH: "length q < length t" if "parse_chars t = Some (y, q)" "length t < length s" for t y q
    using less.hyps that by blast
  show ?case
  proof (cases s)
    case Nil
    with less.prems show ?thesis by simp
  next
    case (Cons c cs)
    with less.prems show ?thesis
      by (auto simp: cons_fst_def split: if_splits list.splits option.splits dest: IH)
  qed
qed

lemma skip_ws_length: "length (skip_ws s) \<le> length s"
  by (induction s) auto

text \<open>After an element: a comma and the next element, or the closing bracket and the
  end of the text.\<close>

function parse_more :: "string \<Rightarrow> string list option" where
  "parse_more s =
     (case skip_ws s of
        [] \<Rightarrow> None
      | c # cs \<Rightarrow>
          if c = CHR '']'' then (if skip_ws cs = [] then Some [] else None)
          else if c = CHR '','' then
            (case skip_ws cs of
               [] \<Rightarrow> None
             | q # qs \<Rightarrow>
                 if q = CHR 0x22 then
                   (case parse_chars qs of
                      None \<Rightarrow> None
                    | Some (x, rest) \<Rightarrow> map_option (Cons x) (parse_more rest))
                 else None)
          else None)"
  by pat_completeness auto
termination
proof (relation "measure length")
  show "wf (measure length)" by simp
next
  fix s :: string and c cs q qs p x rest
  assume a: "skip_ws s = c # cs" "skip_ws cs = q # qs"
    and b: "parse_chars qs = Some p" "(x, rest) = p"
  from b have "length rest < length qs"
    using parse_chars_shorter [of qs x rest] by simp
  moreover have "length (q # qs) \<le> length cs"
    using skip_ws_length [of cs] a(2) by simp
  moreover have "length (c # cs) \<le> length s"
    using skip_ws_length [of s] a(1) by simp
  ultimately show "(rest, s) \<in> measure length" by simp
qed

declare parse_more.simps [simp del]

definition JSON_parse :: "string \<Rightarrow> string list option" where
  "JSON_parse s =
     (case skip_ws s of
        [] \<Rightarrow> None
      | c # cs \<Rightarrow>
          if c = CHR ''['' then
            (case skip_ws cs of
               [] \<Rightarrow> None
             | q # qs \<Rightarrow>
                 if q = CHR '']'' then (if skip_ws qs = [] then Some [] else None)
                 else if q = CHR 0x22 then
                   (case parse_chars qs of
                      None \<Rightarrow> None
                    | Some (x, rest) \<Rightarrow> map_option (Cons x) (parse_more rest))
                 else None)
          else None)"

text \<open>
  Lines 33 to 39: the initial favorites, read from storage where there is a window.
  \<open>None\<close> is the case in which \<open>JSON.parse\<close> gives no array of strings.
\<close>

definition initial_favorites :: "bool \<Rightarrow> storage \<Rightarrow> string list option" where
  "initial_favorites has_window ls =
     (if has_window then
        (case ls ''cryptoFavorites'' of
           None \<Rightarrow> Some []
         | Some saved \<Rightarrow> if saved \<noteq> [] then JSON_parse saved else Some [])
      else Some [])"

text \<open>Lines 145 to 149: the effect that runs after every render that changed
  \<open>favorites\<close>.\<close>

definition persist_favorites :: "bool \<Rightarrow> Home \<Rightarrow> storage \<Rightarrow> storage" where
  "persist_favorites has_window st ls =
     (if has_window then ls(''cryptoFavorites'' \<mapsto> JSON_stringify (favorites st)) else ls)"

text \<open>A click on a star: \<open>setFavorites\<close> with the toggled list, the render, and the
  effect.\<close>

definition click_star :: "bool \<Rightarrow> string \<Rightarrow> Home \<times> storage \<Rightarrow> Home \<times> storage" where
  "click_star has_window cryptoId s =
     (let st' = (fst s)\<lparr>favorites := toggleFavorite cryptoId (favorites (fst s))\<rparr>
      in (st', persist_favorites has_window st' (snd s)))"

text \<open>Lines 32 to 43: the state of the first render.\<close>

definition initial_state :: "string list \<Rightarrow> Home" where
  "initial_state favs =
     \<lparr>cryptoData = [], favorites = favs, loading = True, error = None,
      lastFetchTime = 0, isRefreshing = False\<rparr>"

section \<open>Notions for the statements\<close>

text \<open>What one request comes to: the array, or the value thrown into the \<open>catch\<close>
  block.\<close>

definition outcome :: "request \<Rightarrow> thrown + CryptoData list" where
  "outcome q = (case snd (await_fetch q) of Inl e \<Rightarrow> Inl e | Inr r \<Rightarrow> check_response r)"

text \<open>The message the \<open>catch\<close> block reports for a thrown value (lines 101 to 113).\<close>

definition reported :: "thrown \<Rightarrow> string" where
  "reported e =
     (case e of
        ErrorObj name message \<Rightarrow>
          if name = ''AbortError'' then ''Request timed out. Please try again.'' else message
      | NonError \<Rightarrow> ''An unexpected error occurred. Please try again.'')"

text \<open>
  A request succeeds when it is answered within the 15 seconds, with a status from 200
  to 299 and a body that is a JSON array; every other request fails.
\<close>

definition succeeds :: "request \<Rightarrow> bool" where
  "succeeds q =
     (latency q < 15000 \<and>
      (case result q of
         Rejected msg \<Rightarrow> False
       | Resolved resp \<Rightarrow>
           200 \<le> status resp \<and> status resp \<le> 299 \<and>
           (case body resp of
              JsonArray data \<Rightarrow> True
            | JsonOther \<Rightarrow> False
            | NotJson msg \<Rightarrow> False)))"

text \<open>A request times out when its promise has not settled \<open>FETCH_TIMEOUT\<close>
  milliseconds after it was issued.\<close>

definition timed_out :: "request \<Rightarrow> bool" where
  "timed_out q = (latency q \<ge> FETCH_TIMEOUT)"

text \<open>The array an array operation returns: the one its reference names in the store
  it leaves.\<close>

definition view :: "ref \<times> 'a store \<Rightarrow> 'a list" where
  "view p = deref (snd p) (fst p)"

section \<open>Values for the examples\<close>

definition coin :: "string \<Rightarrow> real \<Rightarrow> real \<Rightarrow> CryptoData" where
  "coin i change volume =
     \<lparr>id_c = i, symbol = i, name_c = i, image_c = [], current_price = 1,
      price_change_percentage_24h = change, market_cap = 1, total_volume = volume,
      circulating_supply = 1, ath = 1, ath_date = []\<rparr>"

definition no_dates :: dates where
  "no_dates = \<lparr>parse_date = (\<lambda>s. None), thirtyDaysAgo = 0\<rparr>"

definition offline :: "nat \<Rightarrow> request" where
  "offline k = \<lparr>latency = 250, result = Rejected ''Failed to fetch''\<rparr>"

text \<open>
  A network for a slow start: the first two requests get no answer in time, the third
  is answered with a listing, and every later one with status 503.
\<close>

definition slow_start :: "nat \<Rightarrow> request" where
  "slow_start k =
     (if k < 2 then \<lparr>latency = 20000, result = Rejected []\<rparr>
      else if k = 2 then
        \<lparr>latency = 250,
         result = Resolved \<lparr>status = 200, body = JsonArray [coin ''bitcoin'' 2 5]\<rparr>\<rparr>
      else \<lparr>latency = 250, result = Resolved \<lparr>status = 503, body = JsonOther\<rparr>\<rparr>)"

section \<open>Array lemmas\<close>

lemma includes_set: "array_includes xs x \<longleftrightarrow> x \<in> set xs"
  by (induction xs) auto

lemma keep_filter: "keep p xs = filter p xs"
  by (induction xs) auto

lemma insert_by_insort:
  "insert_by by_change_desc x ys = insort_key (\<lambda>c. - price_change_percentage_24h c) x ys"
  by (induction ys) (auto simp: by_change_desc_def)

lemma sort_by_sort_key:
  "sort_by by_change_desc xs = sort_key (\<lambda>c. - price_change_percentage_24h c) xs"
  by (induction xs) (auto simp: insert_by_insort)

lemma sort_key_neg_descending:
  "sorted_wrt (\<lambda>a b. price_change_percentage_24h a \<ge> price_change_percentage_24h b)
     (sort_key (\<lambda>c. - price_change_percentage_24h c) xs)"
proof -
  have "sorted (map (\<lambda>c. - price_change_percentage_24h c)
          (sort_key (\<lambda>c. - price_change_percentage_24h c) xs))"
    by (rule sorted_sort_key)
  then show ?thesis
    by (simp add: sorted_map)
qed

lemma sort_key_neg_stable:
  "filter (\<lambda>c. price_change_percentage_24h c = k)
     (sort_key (\<lambda>c. - price_change_percentage_24h c) xs)
   = filter (\<lambda>c. price_change_percentage_24h c = k) xs"
  using sort_key_stable [of "\<lambda>c. - price_change_percentage_24h c" "- k" xs]
  by simp

section \<open>The fetcher, step by step\<close>

lemma begin_fetch_fields [simp]:
  "cryptoData (begin_fetch m st) = cryptoData st"
  "lastFetchTime (begin_fetch m st) = lastFetchTime st"
  "favorites (begin_fetch m st) = favorites st"
  "error (begin_fetch m st) = None"
  by (simp_all add: begin_fetch_def)

lemma finally_block_fields [simp]:
  "cryptoData (finally_block m st) = cryptoData st"
  "lastFetchTime (finally_block m st) = lastFetchTime st"
  "favorites (finally_block m st) = favorites st"
  "error (finally_block m st) = error st"
  by (simp_all add: finally_block_def)

lemma begin_fetch_idem [simp]: "begin_fetch m (begin_fetch m st) = begin_fetch m st"
  by (simp add: begin_fetch_def)

lemma finally_block_idem [simp]: "finally_block m (finally_block m st) = finally_block m st"
  by (simp add: finally_block_def)

lemma isRefreshing_finally_block [simp]:
  "isRefreshing (finally_block True st) = False"
  "isRefreshing (finally_block False st) = isRefreshing st"
  by (simp_all add: finally_block_def)

lemma skipped_later: "\<not> skipped m cb now \<Longrightarrow> now \<le> now' \<Longrightarrow> \<not> skipped m cb now'"
  by (auto simp: skipped_def)

lemma skipped_useCallback:
  "skipped m (useCallback st) now
     \<longleftrightarrow> \<not> m \<and> now - lastFetchTime st < 10000 \<and> cryptoData st \<noteq> []"
  by (simp add: skipped_def useCallback_def)

lemma succeeds_outcome: "succeeds q \<longleftrightarrow> (\<exists>data. outcome q = Inr data)"
  by (auto simp: succeeds_def outcome_def await_fetch_def check_response_def ok_def
      FETCH_TIMEOUT_def split: settled.splits body.splits)

lemma fetch_skip:
  "skipped m cb (clock w) \<Longrightarrow> fetchCryptoData cb net r m (st, w) = (st, w)"
  by (simp add: fetchCryptoData.simps)

lemma outcome_not_abort:
  "\<not> timed_out q \<Longrightarrow> outcome q = Inl (ErrorObj name message) \<Longrightarrow> name \<noteq> ''AbortError''"
  by (auto simp: outcome_def timed_out_def await_fetch_def check_response_def
      split: if_splits settled.splits body.splits)

lemma outcome_abort:
  "timed_out q \<Longrightarrow> outcome q = Inl (ErrorObj ''AbortError'' ''The operation was aborted.'')"
  by (simp add: outcome_def timed_out_def await_fetch_def)

lemma outcome_not_NonError: "outcome q \<noteq> Inl NonError"
  by (auto simp: outcome_def await_fetch_def check_response_def
      split: if_splits settled.splits body.splits)

lemma fetch_answer:
  assumes "\<not> skipped m cb (clock w)" and "\<not> timed_out (net (length (requests w)))"
  shows "fetchCryptoData cb net r m (st, w) =
    (finally_block m
       (case outcome (net (length (requests w))) of
          Inr data \<Rightarrow> succeed data (clock w) (begin_fetch m st)
        | Inl e \<Rightarrow> fail_with (reported e) (seen_length cb) (begin_fetch m st)),
     w\<lparr>requests := requests w @ [clock w],
       clock := clock w + latency (net (length (requests w)))\<rparr>)"
proof -
  let ?q = "net (length (requests w))"
  have lat: "latency ?q < FETCH_TIMEOUT"
    using assms(2) by (simp add: timed_out_def)
  show ?thesis
  proof (cases "outcome ?q")
    case (Inr data)
    then show ?thesis
      using assms(1) lat
      by (subst fetchCryptoData.simps)
        (auto simp: Let_def outcome_def await_fetch_def split: sum.splits settled.splits)
  next
    case (Inl e)
    show ?thesis
    proof (cases e)
      case (ErrorObj name message)
      with Inl assms(2) have "name \<noteq> ''AbortError''"
        using outcome_not_abort by blast
      with Inl ErrorObj show ?thesis
        using assms(1) lat
        by (subst fetchCryptoData.simps)
          (auto simp: Let_def outcome_def await_fetch_def reported_def
            split: sum.splits settled.splits)
    next
      case NonError
      with Inl show ?thesis using outcome_not_NonError by blast
    qed
  qed
qed

lemma fetch_retry:
  assumes "\<not> skipped m cb (clock w)" and "timed_out (net (length (requests w)))" and "0 < r"
  shows "fetchCryptoData cb net r m (st, w) =
    (case fetchCryptoData cb net (r - 1) m
            (begin_fetch m st,
             w\<lparr>requests := requests w @ [clock w],
               clock := clock w + FETCH_TIMEOUT + RETRY_DELAY\<rparr>) of
       (st2, w2) \<Rightarrow> (finally_block m st2, w2))"
  using assms
  by (subst fetchCryptoData.simps) (simp add: Let_def timed_out_def await_fetch_def)

lemma fetch_giveup:
  assumes "\<not> skipped m cb (clock w)" and "timed_out (net (length (requests w)))" and "r \<le> 0"
  shows "fetchCryptoData cb net r m (st, w) =
    (finally_block m
       (fail_with ''Request timed out. Please try again.'' (seen_length cb)
          (begin_fetch m st)),
     w\<lparr>requests := requests w @ [clock w], clock := clock w + FETCH_TIMEOUT\<rparr>)"
  using assms
  by (subst fetchCryptoData.simps) (simp add: Let_def timed_out_def await_fetch_def)

lemma fail_with_fields [simp]:
  "error (fail_with msg len st) = Some msg"
  "lastFetchTime (fail_with msg len st) = lastFetchTime st"
  "favorites (fail_with msg len st) = favorites st"
  "cryptoData (fail_with msg len st) = (if len = 0 then [] else cryptoData st)"
  by (simp_all add: fail_with_def Let_def)

lemma succeed_fields [simp]:
  "error (succeed data now st) = None"
  "lastFetchTime (succeed data now st) = now"
  "cryptoData (succeed data now st) = data"
  "favorites (succeed data now st) = favorites st"
  by (simp_all add: succeed_def)

lemma fetch_result:
  assumes "\<not> skipped m cb (clock w)" and "fetchCryptoData cb net r m (st, w) = (st', w')"
  shows "(\<exists>more. requests w' = requests w @ clock w # more) \<and>
    (case outcome (net (length (requests w') - 1)) of
       Inr data \<Rightarrow>
         error st' = None \<and> cryptoData st' = data \<and> lastFetchTime st' = last (requests w')
     | Inl e \<Rightarrow>
         error st' = Some (reported e) \<and>
         cryptoData st' = (if seen_length cb = 0 then [] else cryptoData st) \<and>
         lastFetchTime st' = lastFetchTime st)"
  using assms
proof (induction "nat r" arbitrary: r st w st' w')
  case 0
  then have r: "r \<le> 0" by simp
  show ?case
  proof (cases "timed_out (net (length (requests w)))")
    case True
    have "fetchCryptoData cb net r m (st, w) =
        (finally_block m
           (fail_with ''Request timed out. Please try again.'' (seen_length cb)
              (begin_fetch m st)),
         w\<lparr>requests := requests w @ [clock w], clock := clock w + FETCH_TIMEOUT\<rparr>)"
      using "0.prems"(1) True r by (rule fetch_giveup)
    with "0.prems"(2) outcome_abort [OF True]
    show ?thesis by (auto simp: reported_def)
  next
    case False
    from fetch_answer [where m = m and cb = cb and st = st and w = w and net = net and r = r] "0.prems" False
    show ?thesis by (auto split: sum.splits)
  qed
next
  case (Suc n)
  then have r: "0 < r" and n: "n = nat (r - 1)" by simp_all
  show ?case
  proof (cases "timed_out (net (length (requests w)))")
    case False
    from fetch_answer [where m = m and cb = cb and st = st and w = w and net = net and r = r] Suc.prems False
    show ?thesis by (auto split: sum.splits)
  next
    case True
    let ?w1 = "w\<lparr>requests := requests w @ [clock w],
                 clock := clock w + FETCH_TIMEOUT + RETRY_DELAY\<rparr>"
    obtain st2 w2 where rec: "fetchCryptoData cb net (r - 1) m (begin_fetch m st, ?w1) = (st2, w2)"
      by (cases "fetchCryptoData cb net (r - 1) m (begin_fetch m st, ?w1)") blast
    have res: "st' = finally_block m st2" "w' = w2"
      using fetch_retry [where m = m and cb = cb and st = st and w = w and net = net and r = r] Suc.prems True r rec by simp_all
    have ns: "\<not> skipped m cb (clock ?w1)"
      using skipped_later [OF Suc.prems(1), of "clock ?w1"]
      by (simp add: FETCH_TIMEOUT_def RETRY_DELAY_def)
    have "(\<exists>more. requests w2 = requests ?w1 @ clock ?w1 # more) \<and>
      (case outcome (net (length (requests w2) - 1)) of
         Inr data \<Rightarrow>
           error st2 = None \<and> cryptoData st2 = data \<and> lastFetchTime st2 = last (requests w2)
       | Inl e \<Rightarrow>
           error st2 = Some (reported e) \<and>
           cryptoData st2 = (if seen_length cb = 0 then [] else cryptoData (begin_fetch m st)) \<and>
           lastFetchTime st2 = lastFetchTime (begin_fetch m st))"
      using n ns rec by (rule Suc.hyps(1))
    then show ?thesis
      unfolding res by (auto split: sum.splits)
  qed
qed


lemma fetch_chain:
  assumes "\<not> skipped m cb (clock w)"
    and "\<forall>i<j. timed_out (net (length (requests w) + i))"
    and "\<not> timed_out (net (length (requests w) + j))"
    and "int j \<le> r"
  shows "fetchCryptoData cb net r m (st, w) =
    (finally_block m
       (case outcome (net (length (requests w) + j)) of
          Inr data \<Rightarrow> succeed data (clock w + 18000 * int j) (begin_fetch m st)
        | Inl e \<Rightarrow> fail_with (reported e) (seen_length cb) (begin_fetch m st)),
     w\<lparr>requests := requests w @ map (\<lambda>i. clock w + 18000 * int i) [0..<Suc j],
       clock := clock w + 18000 * int j + latency (net (length (requests w) + j))\<rparr>)"
  using assms
proof (induction j arbitrary: st w r)
  case 0
  then show ?case
    using fetch_answer [where m = m and cb = cb and st = st and w = w and net = net and r = r] by (simp split: sum.splits)
next
  case (Suc j)
  let ?w1 = "w\<lparr>requests := requests w @ [clock w],
               clock := clock w + FETCH_TIMEOUT + RETRY_DELAY\<rparr>"
  have t0: "timed_out (net (length (requests w)))"
    using Suc.prems(2) by (metis add.right_neutral zero_less_Suc)
  have r: "0 < r" using Suc.prems(4) by simp
  have ns: "\<not> skipped m cb (clock ?w1)"
    using skipped_later [OF Suc.prems(1), of "clock ?w1"]
    by (simp add: FETCH_TIMEOUT_def RETRY_DELAY_def)
  have later: "\<forall>i<j. timed_out (net (length (requests ?w1) + i))"
    using Suc.prems(2) by (auto dest: spec [of _ "Suc i" for i])
  have last: "\<not> timed_out (net (length (requests ?w1) + j))"
    using Suc.prems(3) by simp
  have le: "int j \<le> r - 1" using Suc.prems(4) by simp
  have step: "fetchCryptoData cb net r m (st, w) =
      (case fetchCryptoData cb net (r - 1) m (begin_fetch m st, ?w1) of
         (st2, w2) \<Rightarrow> (finally_block m st2, w2))"
    using Suc.prems(1) t0 r by (rule fetch_retry)
  show ?case
    unfolding step Suc.IH [OF ns later last le]
    by (simp add: FETCH_TIMEOUT_def RETRY_DELAY_def map_upt_Suc [of _ "Suc j"] algebra_simps
        del: upt_Suc cong: sum.case_cong)
qed

lemma fetch_chain_giveup:
  assumes "\<not> skipped m cb (clock w)"
    and "\<forall>i\<le>j. timed_out (net (length (requests w) + i))"
    and "r = int j"
  shows "fetchCryptoData cb net r m (st, w) =
    (finally_block m
       (fail_with ''Request timed out. Please try again.'' (seen_length cb)
          (begin_fetch m st)),
     w\<lparr>requests := requests w @ map (\<lambda>i. clock w + 18000 * int i) [0..<Suc j],
       clock := clock w + 18000 * int j + 15000\<rparr>)"
  using assms
proof (induction j arbitrary: st w r)
  case 0
  then show ?case
    using fetch_giveup [where m = m and cb = cb and st = st and w = w and net = net and r = r] by (simp add: FETCH_TIMEOUT_def)
next
  case (Suc j)
  let ?w1 = "w\<lparr>requests := requests w @ [clock w],
               clock := clock w + FETCH_TIMEOUT + RETRY_DELAY\<rparr>"
  have t0: "timed_out (net (length (requests w)))"
    using Suc.prems(2) by (metis add.right_neutral le0)
  have r: "0 < r" using Suc.prems(3) by simp
  have ns: "\<not> skipped m cb (clock ?w1)"
    using skipped_later [OF Suc.prems(1), of "clock ?w1"]
    by (simp add: FETCH_TIMEOUT_def RETRY_DELAY_def)
  have later: "\<forall>i\<le>j. timed_out (net (length (requests ?w1) + i))"
    using Suc.prems(2) by (auto dest: spec [of _ "Suc i" for i])
  have eq: "r - 1 = int j" using Suc.prems(3) by simp
  have step: "fetchCryptoData cb net r m (st, w) =
      (case fetchCryptoData cb net (r - 1) m (begin_fetch m st, ?w1) of
         (st2, w2) \<Rightarrow> (finally_block m st2, w2))"
    using Suc.prems(1) t0 r by (rule fetch_retry)
  show ?case
    unfolding step Suc.IH [OF ns later eq]
    by (simp add: FETCH_TIMEOUT_def RETRY_DELAY_def map_upt_Suc [of _ "Suc j"] algebra_simps
        del: upt_Suc)
qed

section \<open>JSON lemmas\<close>

lemma hex_value_digit: "k < 16 \<Longrightarrow> hex_value (hex_digit k) = Some k"
proof -
  assume "k < 16"
  then have "k = 0 \<or> k = 1 \<or> k = 2 \<or> k = 3 \<or> k = 4 \<or> k = 5 \<or> k = 6 \<or> k = 7 \<or> k = 8
      \<or> k = 9 \<or> k = 10 \<or> k = 11 \<or> k = 12 \<or> k = 13 \<or> k = 14 \<or> k = 15"
    by arith
  then show ?thesis
    by (elim disjE) (simp_all add: hex_digit_def hex_value_def)
qed

lemma hex_value_zero: "hex_value CHR ''0'' = Some 0"
  by (simp add: hex_value_def)

lemma hex4_control:
  assumes "(of_char c :: nat) < 32"
  shows "hex4 CHR ''0'' CHR ''0'' (hex_digit (of_char c div 16)) (hex_digit (of_char c mod 16))
         = Some (of_char c)"
proof -
  have "(of_char c :: nat) div 16 < 16" using assms by simp
  then show ?thesis
    by (simp add: hex4_def hex_value_zero hex_value_digit)
qed

lemma parse_quote_char:
  "parse_chars (quote_char c @ rest) = cons_fst c (parse_chars rest)"
proof (cases "(of_char c :: nat) < 32 \<and> c \<notin> {CHR 0x08, CHR 0x0C, CHR 0x0A, CHR 0x0D, CHR 0x09}")
  case True
  then have ne: "c \<noteq> CHR 0x22" "c \<noteq> CHR 0x5C" by auto
  from True have lt: "(of_char c :: nat) < 256" by simp
  show ?thesis
    using True ne hex4_control [of c] lt
    by (simp add: quote_char_def)
next
  case False
  then show ?thesis
    by (auto simp: quote_char_def unescape_def)
qed

lemma parse_chars_quoted:
  "parse_chars (concat (map quote_char s) @ CHR 0x22 # rest) = Some (s, rest)"
  by (induction s) (simp_all add: parse_quote_char cons_fst_def)

lemma parse_more_elems:
  "parse_more (concat (map (\<lambda>x. CHR '','' # quote x) xs) @ '']'') = Some xs"
proof (induction xs)
  case Nil
  show ?case by (simp add: parse_more.simps)
next
  case (Cons x xs)
  have "parse_more (concat (map (\<lambda>x. CHR '','' # quote x) (x # xs)) @ '']'')
      = map_option (Cons x) (parse_more (concat (map (\<lambda>x. CHR '','' # quote x) xs) @ '']''))"
    by (subst parse_more.simps) (simp add: quote_def parse_chars_quoted)
  then show ?case by (simp add: Cons.IH)
qed

lemma join_commas_Cons:
  "join_commas (map quote (x # xs)) = quote x @ concat (map (\<lambda>x. CHR '','' # quote x) xs)"
  by (induction xs arbitrary: x) simp_all

lemma JSON_roundtrip: "JSON_parse (JSON_stringify xs) = Some xs"
proof (cases xs)
  case Nil
  then show ?thesis by (simp add: JSON_parse_def JSON_stringify_def)
next
  case (Cons x ys)
  have "JSON_stringify xs
      = CHR ''['' # CHR 0x22 # concat (map quote_char x) @ CHR 0x22 #
          (concat (map (\<lambda>x. CHR '','' # quote x) ys) @ '']'')"
    unfolding Cons JSON_stringify_def join_commas_Cons by (simp add: quote_def)
  then show ?thesis
    by (simp add: JSON_parse_def parse_chars_quoted parse_more_elems Cons)
qed

lemma JSON_stringify_nonempty: "JSON_stringify xs \<noteq> []"
  by (simp add: JSON_stringify_def)

section \<open>The claims\<close>

subsection \<open>C1: retry on timeout\<close>

text \<open>
  C1. A call of \<open>fetchCryptoData\<close> with the default \<open>MAX_RETRIES\<close> that is not skipped
  issues its first request at once. A request that has no answer after 15 seconds is
  aborted and, while retries are left, issued again 3 seconds after the abort, that is
  18 seconds after the request before. If the first \<open>j \<le> 3\<close> requests time out and the
  next is answered, exactly \<open>j + 1\<close> requests are issued and the result is the answered
  one's: an answer that is a failure is never followed by a retry. If all four requests
  time out, no fifth is issued and the error is the time-out message.
\<close>

theorem timeout_retry:
  assumes "\<not> skipped m cb (clock w)"
  shows
   "(\<forall>j<4.
       (\<forall>i<j. latency (net (length (requests w) + i)) \<ge> 15000) \<and>
       latency (net (length (requests w) + j)) < 15000 \<longrightarrow>
       (case fetchCryptoData cb net MAX_RETRIES m (st, w) of
          (st', w') \<Rightarrow>
            requests w' =
              requests w @ map (\<lambda>i. clock w + (15000 + 3000) * int i) [0..<Suc j] \<and>
            error st' =
              (case outcome (net (length (requests w) + j)) of
                 Inr data \<Rightarrow> None
               | Inl e \<Rightarrow> Some (reported e)))) \<and>
    ((\<forall>i<4. latency (net (length (requests w) + i)) \<ge> 15000) \<longrightarrow>
       (case fetchCryptoData cb net MAX_RETRIES m (st, w) of
          (st', w') \<Rightarrow>
            requests w' =
              requests w @ [clock w, clock w + 18000, clock w + 36000, clock w + 54000] \<and>
            clock w' = clock w + 54000 + 15000 \<and>
            error st' = Some ''Request timed out. Please try again.''))"
proof (intro conjI allI impI)
  fix j :: nat
  assume j: "j < 4"
    and lat: "(\<forall>i<j. latency (net (length (requests w) + i)) \<ge> 15000) \<and>
       latency (net (length (requests w) + j)) < 15000"
  have a: "\<forall>i<j. timed_out (net (length (requests w) + i))"
    using lat by (simp add: timed_out_def FETCH_TIMEOUT_def)
  have b: "\<not> timed_out (net (length (requests w) + j))"
    using lat by (simp add: timed_out_def FETCH_TIMEOUT_def)
  have c: "int j \<le> MAX_RETRIES"
    using j by (simp add: MAX_RETRIES_def)
  show "case fetchCryptoData cb net MAX_RETRIES m (st, w) of
          (st', w') \<Rightarrow>
            requests w' =
              requests w @ map (\<lambda>i. clock w + (15000 + 3000) * int i) [0..<Suc j] \<and>
            error st' =
              (case outcome (net (length (requests w) + j)) of
                 Inr data \<Rightarrow> None
               | Inl e \<Rightarrow> Some (reported e))"
    unfolding fetch_chain [OF assms a b c]
    by (simp split: sum.splits del: upt_Suc)
next
  assume "\<forall>i<4. latency (net (length (requests w) + i)) \<ge> 15000"
  then have a: "\<forall>i\<le>3. timed_out (net (length (requests w) + i))"
    by (simp add: timed_out_def FETCH_TIMEOUT_def)
  have b: "MAX_RETRIES = int 3"
    by (simp add: MAX_RETRIES_def)
  have c: "[0..<Suc 3] = [0, 1, 2, 3]"
    by (simp add: upt_rec)
  show "case fetchCryptoData cb net MAX_RETRIES m (st, w) of
          (st', w') \<Rightarrow>
            requests w' =
              requests w @ [clock w, clock w + 18000, clock w + 36000, clock w + 54000] \<and>
            clock w' = clock w + 54000 + 15000 \<and>
            error st' = Some ''Request timed out. Please try again.''"
    unfolding fetch_chain_giveup [OF assms a b] c
    by simp
qed

theorem timeout_retry_witness:
  "requests (snd (fetchCryptoData (useCallback (initial_state []))
       (\<lambda>k. \<lparr>latency = 20000, result = Rejected []\<rparr>) MAX_RETRIES False
       (initial_state [], \<lparr>clock = 1000, requests = []\<rparr>)))
     = [1000, 19000, 37000, 55000] \<and>
   error (fst (fetchCryptoData (useCallback (initial_state []))
       (\<lambda>k. \<lparr>latency = 20000, result = Rejected []\<rparr>) MAX_RETRIES False
       (initial_state [], \<lparr>clock = 1000, requests = []\<rparr>)))
     = Some ''Request timed out. Please try again.'' \<and>
   requests (snd (fetchCryptoData (useCallback (initial_state []))
       (\<lambda>k. if k = 0 then \<lparr>latency = 15000, result = Rejected []\<rparr>
             else \<lparr>latency = 250, result = Resolved \<lparr>status = 503, body = JsonOther\<rparr>\<rparr>)
       MAX_RETRIES True (initial_state [], \<lparr>clock = 1000, requests = []\<rparr>)))
     = [1000, 19000]"
proof -
  let ?n1 = "\<lambda>k::nat. \<lparr>latency = 20000, result = Rejected []\<rparr>"
  let ?n2 = "\<lambda>k::nat. if k = 0 then \<lparr>latency = 15000, result = Rejected []\<rparr>
             else \<lparr>latency = 250, result = Resolved \<lparr>status = 503, body = JsonOther\<rparr>\<rparr>"
  let ?w = "\<lparr>clock = 1000, requests = []\<rparr>"
  have ns: "\<not> skipped m (useCallback (initial_state [])) (clock ?w)" for m
    by (simp add: skipped_def useCallback_def initial_state_def)
  have one: "[0..<Suc (Suc 0)] = [0, 1]"
    by (simp add: upt_rec)
  from timeout_retry [where m = False and net = ?n1 and st = "initial_state []", OF ns]
    timeout_retry [where m = True and net = ?n2 and st = "initial_state []", OF ns]
  show ?thesis
    by (auto simp: one split: prod.splits dest!: spec [of _ "1::nat"])
qed

subsection \<open>C2: a failed fetch and the data\<close>

text \<open>
  C2. The \<open>catch\<close> block keeps the data only as far as the callback knows of it: line
  116 tests the \<open>cryptoData.length\<close> of the render that made the callback. A retry
  chain that started while the list was empty goes on with that callback. Here the
  page loads at 1000 and the chain's requests of 1000 and 19000 get no answer; while
  the second is in flight the user clicks Refresh at 20000, and that call succeeds and
  stores a listing; the chain's second request is aborted at 34000 and line 105 calls
  the old callback again at 37000; its request is answered with status 503, line 116
  finds the callback's length 0, and line 117 empties the list that held the listing.
\<close>

theorem stale_callback_wipes_data:
  "cryptoData (fst (refresh_click slow_start
       (finally_block False (begin_fetch False (initial_state [])),
        \<lparr>clock = 20000, requests = [1000, 19000]\<rparr>)))
     = [coin ''bitcoin'' 2 5] \<and>
   cryptoData (fst (fetchCryptoData (useCallback (initial_state [])) slow_start 1 False
       (fst (refresh_click slow_start
          (finally_block False (begin_fetch False (initial_state [])),
           \<lparr>clock = 20000, requests = [1000, 19000]\<rparr>)),
        (snd (refresh_click slow_start
          (finally_block False (begin_fetch False (initial_state [])),
           \<lparr>clock = 20000, requests = [1000, 19000]\<rparr>)))\<lparr>clock := 37000\<rparr>)))
     = [] \<and>
   error (fst (fetchCryptoData (useCallback (initial_state [])) slow_start 1 False
       (fst (refresh_click slow_start
          (finally_block False (begin_fetch False (initial_state [])),
           \<lparr>clock = 20000, requests = [1000, 19000]\<rparr>)),
        (snd (refresh_click slow_start
          (finally_block False (begin_fetch False (initial_state [])),
           \<lparr>clock = 20000, requests = [1000, 19000]\<rparr>)))\<lparr>clock := 37000\<rparr>)))
     = Some ''Failed to fetch data (HTTP 503)''"
proof -
  let ?cb = "useCallback (initial_state [])"
  let ?mid = "finally_block False (begin_fetch False (initial_state []))"
  let ?w = "\<lparr>clock = 20000, requests = [1000, 19000]\<rparr>"
  let ?st2 = "finally_block True (succeed [coin ''bitcoin'' 2 5] 20000 (begin_fetch True ?mid))"
  let ?w2 = "\<lparr>clock = 20250, requests = [1000, 19000, 20000]\<rparr>"
  have click: "refresh_click slow_start (?mid, ?w) = (?st2, ?w2)"
    unfolding refresh_click_def
    using fetch_answer [where m = True and cb = "useCallback ?mid" and st = ?mid and w = ?w
        and net = slow_start and r = MAX_RETRIES]
    by (simp add: skipped_def timed_out_def FETCH_TIMEOUT_def outcome_def await_fetch_def
        check_response_def ok_def slow_start_def)
  have retry: "fetchCryptoData ?cb slow_start 1 False
        (?st2, \<lparr>clock = 37000, requests = [1000, 19000, 20000]\<rparr>)
      = (finally_block False
           (fail_with ''Failed to fetch data (HTTP 503)'' 0 (begin_fetch False ?st2)),
         \<lparr>clock = 37250, requests = [1000, 19000, 20000, 37000]\<rparr>)"
    using fetch_answer [where m = False and cb = ?cb and st = ?st2
        and w = "\<lparr>clock = 37000, requests = [1000, 19000, 20000]\<rparr>"
        and net = slow_start and r = 1]
    by (simp add: skipped_def useCallback_def initial_state_def timed_out_def FETCH_TIMEOUT_def
        outcome_def await_fetch_def check_response_def ok_def slow_start_def reported_def
        string_of_nat.simps)
  show ?thesis
    unfolding click by (simp add: retry)
qed

text \<open>
  A call through the callback of the state it is called in does keep the data: when
  its last request fails, the error is set and the list is what it was.
\<close>

lemma current_callback_keeps_data:
  assumes "\<not> skipped m (useCallback st) (clock w)"
    and "fetchCryptoData (useCallback st) net r m (st, w) = (st', w')"
    and "\<not> succeeds (net (length (requests w') - 1))"
  shows "error st' \<noteq> None \<and> cryptoData st' = cryptoData st"
proof -
  from assms(3) obtain e where "outcome (net (length (requests w') - 1)) = Inl e"
    unfolding succeeds_outcome by (cases "outcome (net (length (requests w') - 1))") auto
  with fetch_result [OF assms(1) assms(2)] show ?thesis
    by (simp add: useCallback_def)
qed

subsection \<open>C3: the throttle of the Refresh button\<close>

text \<open>
  C3, as stated, fails for a slow success: the 10 seconds count from \<open>lastFetchTime\<close>,
  which is \<open>Date.now()\<close> as read before the request was issued (lines 46 and 96), not
  from the completion of the fetch. The first load here is answered after 12 seconds;
  at the moment it completes with success, no time has passed since, and the button
  is not disabled.
\<close>

theorem slow_success_counterexample:
  "error (fst (fetchCryptoData (useCallback (initial_state []))
       (\<lambda>k. \<lparr>latency = 12000,
              result = Resolved \<lparr>status = 200, body = JsonArray [coin ''pepe'' 1 1]\<rparr>\<rparr>)
       MAX_RETRIES False (initial_state [], \<lparr>clock = 70000, requests = []\<rparr>))) = None \<and>
   clock (snd (fetchCryptoData (useCallback (initial_state []))
       (\<lambda>k. \<lparr>latency = 12000,
              result = Resolved \<lparr>status = 200, body = JsonArray [coin ''pepe'' 1 1]\<rparr>\<rparr>)
       MAX_RETRIES False (initial_state [], \<lparr>clock = 70000, requests = []\<rparr>))) = 82000 \<and>
   \<not> refresh_disabled
       (fst (fetchCryptoData (useCallback (initial_state []))
          (\<lambda>k. \<lparr>latency = 12000,
                 result = Resolved \<lparr>status = 200, body = JsonArray [coin ''pepe'' 1 1]\<rparr>\<rparr>)
          MAX_RETRIES False (initial_state [], \<lparr>clock = 70000, requests = []\<rparr>)))
       82000"
proof -
  let ?net = "\<lambda>k::nat. \<lparr>latency = 12000,
      result = Resolved \<lparr>status = 200, body = JsonArray [coin ''pepe'' 1 1]\<rparr>\<rparr>"
  have "fetchCryptoData (useCallback (initial_state [])) ?net MAX_RETRIES False
      (initial_state [], \<lparr>clock = 70000, requests = []\<rparr>)
    = (finally_block False
         (succeed [coin ''pepe'' 1 1] 70000 (begin_fetch False (initial_state []))),
       \<lparr>clock = 82000, requests = [70000]\<rparr>)"
    using fetch_answer [where m = False and cb = "useCallback (initial_state [])"
        and st = "initial_state []" and w = "\<lparr>clock = 70000, requests = []\<rparr>" and net = ?net
        and r = MAX_RETRIES]
    by (simp add: skipped_def useCallback_def initial_state_def timed_out_def FETCH_TIMEOUT_def
        outcome_def await_fetch_def check_response_def ok_def)
  then show ?thesis
    by (simp add: refresh_disabled_def initial_state_def begin_fetch_def succeed_def
        finally_block_def)
qed

text \<open>
  C3, amended. The 10 seconds of the Refresh button count from the time at which the
  last successful request was issued. After a call of \<open>fetchCryptoData\<close> that is not
  skipped and whose last request succeeds, \<open>lastFetchTime\<close> is the time at which that
  request was issued, and the button is rendered disabled exactly when a manual refresh
  is running or fewer than 10 seconds have passed since that time. A call that is
  skipped, or whose last request fails, leaves \<open>lastFetchTime\<close> as it was.
\<close>

theorem refresh_throttle:
  assumes "fetchCryptoData cb net r m (st, w) = (st', w')"
  shows
   "(\<not> skipped m cb (clock w) \<and> succeeds (net (length (requests w') - 1)) \<longrightarrow>
       lastFetchTime st' = last (requests w') \<and>
       (\<forall>now. now - last (requests w') < 10000 \<longrightarrow> refresh_disabled st' now) \<and>
       (\<forall>now. refresh_disabled st' now
          \<longleftrightarrow> isRefreshing st' \<or> now - last (requests w') < 10000)) \<and>
    (skipped m cb (clock w) \<or> \<not> succeeds (net (length (requests w') - 1)) \<longrightarrow>
       lastFetchTime st' = lastFetchTime st)"
proof (cases "skipped m cb (clock w)")
  case True
  with assms have "st' = st"
    by (simp add: fetch_skip)
  with True show ?thesis
    by simp
next
  case False
  note result = fetch_result [OF False assms]
  show ?thesis
  proof (cases "outcome (net (length (requests w') - 1))")
    case (Inl e)
    then have "\<not> succeeds (net (length (requests w') - 1))"
      by (simp add: succeeds_outcome)
    with result Inl show ?thesis
      by simp
  next
    case (Inr data)
    then have "succeeds (net (length (requests w') - 1))"
      by (simp add: succeeds_outcome)
    with result Inr False show ?thesis
      by (simp add: refresh_disabled_def)
  qed
qed

theorem refresh_throttle_witness:
  "lastFetchTime (fst (fetchCryptoData (useCallback (initial_state []))
       (\<lambda>k. \<lparr>latency = 250, result = Resolved \<lparr>status = 200, body = JsonArray [coin ''pepe'' 1 1]\<rparr>\<rparr>)
       MAX_RETRIES False (initial_state [], \<lparr>clock = 70000, requests = []\<rparr>))) = 70000 \<and>
   refresh_disabled (fst (fetchCryptoData (useCallback (initial_state []))
       (\<lambda>k. \<lparr>latency = 250, result = Resolved \<lparr>status = 200, body = JsonArray [coin ''pepe'' 1 1]\<rparr>\<rparr>)
       MAX_RETRIES False (initial_state [], \<lparr>clock = 70000, requests = []\<rparr>))) 79999 \<and>
   \<not> refresh_disabled (fst (fetchCryptoData (useCallback (initial_state []))
       (\<lambda>k. \<lparr>latency = 250, result = Resolved \<lparr>status = 200, body = JsonArray [coin ''pepe'' 1 1]\<rparr>\<rparr>)
       MAX_RETRIES False (initial_state [], \<lparr>clock = 70000, requests = []\<rparr>))) 80000 \<and>
   lastFetchTime (fst (fetchCryptoData (useCallback (initial_state []))
       (\<lambda>k. \<lparr>latency = 250, result = Resolved \<lparr>status = 429, body = JsonOther\<rparr>\<rparr>)
       MAX_RETRIES False (initial_state [], \<lparr>clock = 70000, requests = []\<rparr>))) = 0"
proof -
  let ?cb = "useCallback (initial_state [])"
  let ?good = "\<lambda>k::nat. \<lparr>latency = 250,
      result = Resolved \<lparr>status = 200, body = JsonArray [coin ''pepe'' 1 1]\<rparr>\<rparr>"
  let ?bad = "\<lambda>k::nat. \<lparr>latency = 250, result = Resolved \<lparr>status = 429, body = JsonOther\<rparr>\<rparr>"
  let ?s = "(initial_state [], \<lparr>clock = 70000, requests = []\<rparr>)"
  let ?g = "fetchCryptoData ?cb ?good MAX_RETRIES False ?s"
  let ?b = "fetchCryptoData ?cb ?bad MAX_RETRIES False ?s"
  have ns: "\<not> skipped False ?cb 70000"
    by (simp add: skipped_def useCallback_def initial_state_def)
  have good: "succeeds (?good k)" for k
    by (simp add: succeeds_def)
  have bad: "\<not> succeeds (?bad k)" for k
    by (simp add: succeeds_def)
  have g: "?g = (fst ?g, snd ?g)" and b: "?b = (fst ?b, snd ?b)"
    by simp_all
  have "?g = (finally_block False
         (succeed [coin ''pepe'' 1 1] 70000 (begin_fetch False (initial_state []))),
       \<lparr>clock = 70250, requests = [70000]\<rparr>)"
    using fetch_answer [where m = False and cb = ?cb and st = "initial_state []"
        and w = "\<lparr>clock = 70000, requests = []\<rparr>" and net = ?good and r = MAX_RETRIES] ns
    by (simp add: timed_out_def FETCH_TIMEOUT_def outcome_def await_fetch_def
        check_response_def ok_def)
  then have reqs: "requests (snd ?g) = [70000]" and idle: "\<not> isRefreshing (fst ?g)"
    by (simp_all add: initial_state_def begin_fetch_def succeed_def)
  have "lastFetchTime (fst ?b) = 0"
    using refresh_throttle [OF b] bad by (simp add: initial_state_def)
  moreover have "lastFetchTime (fst ?g) = 70000
      \<and> refresh_disabled (fst ?g) 79999 \<and> \<not> refresh_disabled (fst ?g) 80000"
    using refresh_throttle [OF g] ns good reqs idle by simp
  ultimately show ?thesis
    by simp
qed

subsection \<open>C10: the check inside \<open>fetchCryptoData\<close>\<close>

text \<open>
  C10. \<open>fetchCryptoData\<close> returns at once, with nothing changed and no request issued,
  exactly when the call is automatic, fewer than 10 seconds have passed since
  \<open>lastFetchTime\<close> and the data list is not empty. In every other case, so for every
  manual call and for every call with an empty data list, a request is issued at the
  time of the call.
\<close>

theorem internal_throttle:
  "case fetchCryptoData (useCallback st) net r m (st, w) of
     (st', w') \<Rightarrow>
       if \<not> m \<and> clock w - lastFetchTime st < 10000 \<and> cryptoData st \<noteq> []
       then st' = st \<and> w' = w
       else length (requests w) < length (requests w') \<and>
            take (length (requests w)) (requests w') = requests w \<and>
            requests w' ! length (requests w) = clock w"
proof (cases "skipped m (useCallback st) (clock w)")
  case True
  then show ?thesis
    by (simp add: fetch_skip) (simp add: skipped_useCallback)
next
  case False
  obtain st' w' where res: "fetchCryptoData (useCallback st) net r m (st, w) = (st', w')"
    by (cases "fetchCryptoData (useCallback st) net r m (st, w)") blast
  from fetch_result [OF False res] obtain more
    where "requests w' = requests w @ clock w # more"
    by blast
  with False show ?thesis
    unfolding res by (auto simp: skipped_useCallback)
qed

theorem internal_throttle_witness:
  "fetchCryptoData
     (useCallback ((initial_state [])\<lparr>cryptoData := [coin ''pepe'' 1 1], lastFetchTime := 995000\<rparr>))
     offline MAX_RETRIES False
     ((initial_state [])\<lparr>cryptoData := [coin ''pepe'' 1 1], lastFetchTime := 995000\<rparr>,
      \<lparr>clock = 1000000, requests = [995000]\<rparr>)
   = ((initial_state [])\<lparr>cryptoData := [coin ''pepe'' 1 1], lastFetchTime := 995000\<rparr>,
      \<lparr>clock = 1000000, requests = [995000]\<rparr>) \<and>
   requests (snd (fetchCryptoData
     (useCallback ((initial_state [])\<lparr>lastFetchTime := 995000\<rparr>)) offline MAX_RETRIES False
     ((initial_state [])\<lparr>lastFetchTime := 995000\<rparr>,
      \<lparr>clock = 1000000, requests = [995000]\<rparr>))) ! 1 = 1000000 \<and>
   requests (snd (fetchCryptoData
     (useCallback ((initial_state [])\<lparr>cryptoData := [coin ''pepe'' 1 1], lastFetchTime := 995000\<rparr>))
     offline MAX_RETRIES True
     ((initial_state [])\<lparr>cryptoData := [coin ''pepe'' 1 1], lastFetchTime := 995000\<rparr>,
      \<lparr>clock = 1000000, requests = [995000]\<rparr>))) ! 1 = 1000000"
  using internal_throttle [where net = offline and r = MAX_RETRIES and m = False
      and st = "(initial_state [])\<lparr>cryptoData := [coin ''pepe'' 1 1], lastFetchTime := 995000\<rparr>"
      and w = "\<lparr>clock = 1000000, requests = [995000]\<rparr>"]
    internal_throttle [where net = offline and r = MAX_RETRIES and m = False
      and st = "(initial_state [])\<lparr>lastFetchTime := 995000\<rparr>"
      and w = "\<lparr>clock = 1000000, requests = [995000]\<rparr>"]
    internal_throttle [where net = offline and r = MAX_RETRIES and m = True
      and st = "(initial_state [])\<lparr>cryptoData := [coin ''pepe'' 1 1], lastFetchTime := 995000\<rparr>"
      and w = "\<lparr>clock = 1000000, requests = [995000]\<rparr>"]
  by (auto simp: initial_state_def split: prod.splits)

subsection \<open>C4: the failures told apart\<close>

text \<open>
  C4, as stated, fails for a body that is no JSON text: \<open>response.json()\<close> rejects and
  the error is the parser's message, not \<open>Invalid data received from the server\<close>.
\<close>

theorem body_not_json_counterexample:
  "error (fst (fetchCryptoData (useCallback (initial_state []))
       (\<lambda>k. \<lparr>latency = 250,
              result = Resolved \<lparr>status = 200, body = NotJson ''Unexpected token <''\<rparr>\<rparr>)
       MAX_RETRIES False (initial_state [], \<lparr>clock = 70000, requests = []\<rparr>)))
   \<noteq> Some ''Invalid data received from the server''"
proof -
  let ?net = "\<lambda>k::nat. \<lparr>latency = 250,
      result = Resolved \<lparr>status = 200, body = NotJson ''Unexpected token <''\<rparr>\<rparr>"
  have "\<not> skipped False (useCallback (initial_state [])) 70000"
    by (simp add: skipped_def useCallback_def initial_state_def)
  then have "fst (fetchCryptoData (useCallback (initial_state [])) ?net MAX_RETRIES False
      (initial_state [], \<lparr>clock = 70000, requests = []\<rparr>))
    = finally_block False (fail_with ''Unexpected token <'' 0 (begin_fetch False (initial_state [])))"
    using fetch_answer [where m = False and cb = "useCallback (initial_state [])"
        and st = "initial_state []" and net = ?net
        and w = "\<lparr>clock = 70000, requests = []\<rparr>" and r = MAX_RETRIES]
    by (simp add: timed_out_def FETCH_TIMEOUT_def outcome_def await_fetch_def
        check_response_def ok_def reported_def initial_state_def useCallback_def)
  then show ?thesis
    by simp
qed

text \<open>
  C4, amended. When the request of a call that is not skipped is answered within the
  15 seconds, the error after the call is: the rate-limit message for status 429; for
  every other status outside 200 to 299 the generic message with the status in decimal;
  for an OK status, \<open>Invalid data received from the server\<close> when the body is JSON but
  no array, the parser's own message when the body is no JSON text, and no error when
  the body is a JSON array.
\<close>

theorem failure_classes:
  assumes "\<not> skipped m cb (clock w)"
    and "latency (net (length (requests w))) < 15000"
    and "result (net (length (requests w))) = Resolved resp"
  shows "error (fst (fetchCryptoData cb net r m (st, w))) =
    (if status resp = 429 then
       Some ''Rate limit exceeded. Please wait a moment before refreshing.''
     else if status resp < 200 \<or> 299 < status resp then
       Some (''Failed to fetch data (HTTP '' @ string_of_nat (status resp) @ '')'')
     else
       (case body resp of
          JsonArray data \<Rightarrow> None
        | JsonOther \<Rightarrow> Some ''Invalid data received from the server''
        | NotJson msg \<Rightarrow> Some msg))"
proof -
  have nt: "\<not> timed_out (net (length (requests w)))"
    using assms(2) by (simp add: timed_out_def FETCH_TIMEOUT_def)
  have out: "outcome (net (length (requests w))) = check_response resp"
    using assms(2,3) by (simp add: outcome_def await_fetch_def FETCH_TIMEOUT_def)
  have run: "fetchCryptoData cb net r m (st, w) =
    (finally_block m
       (case outcome (net (length (requests w))) of
          Inr data \<Rightarrow> succeed data (clock w) (begin_fetch m st)
        | Inl e \<Rightarrow> fail_with (reported e) (seen_length cb) (begin_fetch m st)),
     w\<lparr>requests := requests w @ [clock w],
       clock := clock w + latency (net (length (requests w)))\<rparr>)"
    using assms(1) nt by (rule fetch_answer)
  show ?thesis
    unfolding run out
    by (auto simp: check_response_def ok_def reported_def split: body.splits)
qed

theorem failure_classes_witness:
  "error (fst (fetchCryptoData (useCallback (initial_state []))
       (\<lambda>k. \<lparr>latency = 250, result = Resolved \<lparr>status = 503, body = JsonArray []\<rparr>\<rparr>)
       MAX_RETRIES False (initial_state [], \<lparr>clock = 70000, requests = []\<rparr>)))
     = Some ''Failed to fetch data (HTTP 503)'' \<and>
   error (fst (fetchCryptoData (useCallback (initial_state []))
       (\<lambda>k. \<lparr>latency = 250, result = Resolved \<lparr>status = 429, body = JsonArray []\<rparr>\<rparr>)
       MAX_RETRIES False (initial_state [], \<lparr>clock = 70000, requests = []\<rparr>)))
     = Some ''Rate limit exceeded. Please wait a moment before refreshing.'' \<and>
   error (fst (fetchCryptoData (useCallback (initial_state []))
       (\<lambda>k. \<lparr>latency = 250, result = Resolved \<lparr>status = 200, body = JsonOther\<rparr>\<rparr>)
       MAX_RETRIES False (initial_state [], \<lparr>clock = 70000, requests = []\<rparr>)))
     = Some ''Invalid data received from the server''"
proof -
  have ns: "\<not> skipped False (useCallback (initial_state []))
      (clock \<lparr>clock = 70000, requests = []\<rparr>)"
    by (simp add: skipped_def useCallback_def initial_state_def)
  show ?thesis
    using
      failure_classes [where net = "\<lambda>k. \<lparr>latency = 250,
          result = Resolved \<lparr>status = 503, body = JsonArray []\<rparr>\<rparr>"
        and resp = "\<lparr>status = 503, body = JsonArray []\<rparr>" and r = MAX_RETRIES
        and st = "initial_state []", OF ns]
      failure_classes [where net = "\<lambda>k. \<lparr>latency = 250,
          result = Resolved \<lparr>status = 429, body = JsonArray []\<rparr>\<rparr>"
        and resp = "\<lparr>status = 429, body = JsonArray []\<rparr>" and r = MAX_RETRIES
        and st = "initial_state []", OF ns]
      failure_classes [where net = "\<lambda>k. \<lparr>latency = 250,
          result = Resolved \<lparr>status = 200, body = JsonOther\<rparr>\<rparr>"
        and resp = "\<lparr>status = 200, body = JsonOther\<rparr>" and r = MAX_RETRIES
        and st = "initial_state []", OF ns]
    by (simp add: string_of_nat.simps)
qed

subsection \<open>C5: the scheduler\<close>

text \<open>
  C5. A run of the effect calls \<open>fetchCryptoData()\<close> once, sets the interval of
  60 seconds only when that call has settled, and its cleanup clears the interval that
  its \<open>intervalId\<close> names. When the cleanup runs while the first call has not settled,
  \<open>intervalId\<close> is still undefined, nothing is cleared, and the interval that is set
  afterwards stays: it goes on calling \<open>fetchCryptoData()\<close>.
\<close>

theorem interval_outlives_early_cleanup:
  "timers (run unmounted [Run_effect, Cleanup 0, Fetch_settled 0]) = [(1, 60000)] \<and>
   calls (run unmounted [Run_effect, Cleanup 0, Fetch_settled 0]) = 1 \<and>
   calls (run unmounted [Run_effect, Cleanup 0, Fetch_settled 0, Tick 1, Tick 1]) = 3"
  by (simp add: run_def unmounted_def AUTO_REFRESH_INTERVAL_def)

lemma run_ticks:
  "timers (run s (map Tick ids)) = timers s \<and> runs (run s (map Tick ids)) = runs s"
  unfolding run_def by (induction ids arbitrary: s) simp_all

text \<open>When the first call settles before the cleanup, the cleanup clears the
  interval, however many ticks there were.\<close>

lemma interval_cleared_after_settle:
  "timers (run unmounted [Run_effect]) = [] \<and>
   timers (run unmounted [Run_effect, Fetch_settled 0]) = [(1, 60000)] \<and>
   timers (run unmounted ([Run_effect, Fetch_settled 0] @ map Tick ids @ [Cleanup 0])) = []"
proof -
  let ?s = "run unmounted [Run_effect, Fetch_settled 0]"
  have s: "timers ?s = [(1, 60000)]" "runs ?s = [\<lparr>intervalId = Some 1, awaiting = False\<rparr>]"
    by (simp_all add: run_def unmounted_def AUTO_REFRESH_INTERVAL_def)
  have "run unmounted ([Run_effect, Fetch_settled 0] @ map Tick ids @ [Cleanup 0])
      = step (run ?s (map Tick ids)) (Cleanup 0)"
    by (simp add: run_def)
  then have "timers (run unmounted ([Run_effect, Fetch_settled 0] @ map Tick ids @ [Cleanup 0]))
      = []"
    using run_ticks [of ?s ids] s by (simp add: clearInterval_def)
  then show ?thesis
    using s by (simp add: run_def unmounted_def)
qed

text \<open>Two runs of the effect, the first cleaned up before its call settles: both set
  an interval, and the cleanup of the second clears only its own.\<close>

lemma second_run_leaves_first_interval:
  "timers (run unmounted
      [Run_effect, Cleanup 0, Run_effect, Fetch_settled 0, Fetch_settled 1, Cleanup 1])
     = [(1, 60000)]"
  by (simp add: run_def unmounted_def AUTO_REFRESH_INTERVAL_def clearInterval_def)

subsection \<open>C6: the gainers\<close>

text \<open>
  C6. The \<open>gainers\<close> view is the first 10 elements (all of them when there are fewer)
  of a list that holds the elements of the fetched list, each as often as there, in
  descending order of \<open>price_change_percentage_24h\<close>, elements with equal change in
  their order in the fetched list. Every array that existed before the call, the
  fetched list among them, is unchanged after it.
\<close>

theorem gainers_view:
  "case filterCryptos d favs cd ''gainers'' h of
     (r, h') \<Rightarrow>
       (\<exists>ys. mset ys = mset (deref h cd) \<and>
          sorted_wrt (\<lambda>a b. price_change_percentage_24h a \<ge> price_change_percentage_24h b) ys \<and>
          (\<forall>k. filter (\<lambda>c. price_change_percentage_24h c = k) ys
               = filter (\<lambda>c. price_change_percentage_24h c = k) (deref h cd)) \<and>
          deref h' r = take 10 ys) \<and>
       length (deref h' r) = min 10 (length (deref h cd)) \<and>
       (\<forall>a<length h. deref h' a = deref h a)"
proof -
  let ?xs = "deref h cd"
  let ?ys = "sort_key (\<lambda>c. - price_change_percentage_24h c) ?xs"
  let ?h' = "(h @ [?xs])[length h := ?ys] @ [take 10 ?ys]"
  have run: "filterCryptos d favs cd ''gainers'' h = (Suc (length h), ?h')"
    by (simp add: filterCryptos_def array_spread_def array_sort_def array_slice_def alloc_def
        deref_def sort_by_sort_key)
  have res: "deref ?h' (Suc (length h)) = take 10 ?ys"
    by (simp add: deref_def nth_append)
  have old: "\<forall>a<length h. deref ?h' a = deref h a"
    by (simp add: deref_def nth_append)
  have ex: "\<exists>ys. mset ys = mset ?xs \<and>
        sorted_wrt (\<lambda>a b. price_change_percentage_24h a \<ge> price_change_percentage_24h b) ys \<and>
        (\<forall>k. filter (\<lambda>c. price_change_percentage_24h c = k) ys
             = filter (\<lambda>c. price_change_percentage_24h c = k) ?xs) \<and>
        deref ?h' (Suc (length h)) = take 10 ys"
    using res sort_key_neg_descending [of ?xs] sort_key_neg_stable [of _ ?xs]
    by (intro exI [of _ ?ys]) simp
  have len: "length (deref ?h' (Suc (length h))) = min 10 (length ?xs)"
    unfolding res by simp
  show ?thesis
    unfolding run using ex len old by simp
qed

theorem gainers_view_witness:
  "view (filterCryptos no_dates [] 0 ''gainers''
      [[coin ''a'' 1 5, coin ''b'' 7 9, coin ''c'' (-2) 1, coin ''d'' 7 3]])
     = [coin ''b'' 7 9, coin ''d'' 7 3, coin ''a'' 1 5, coin ''c'' (-2) 1] \<and>
   deref (snd (filterCryptos no_dates [] 0 ''gainers''
      [[coin ''a'' 1 5, coin ''b'' 7 9, coin ''c'' (-2) 1, coin ''d'' 7 3]])) 0
     = [coin ''a'' 1 5, coin ''b'' 7 9, coin ''c'' (-2) 1, coin ''d'' 7 3]"
proof -
  let ?h = "[[coin ''a'' 1 5, coin ''b'' 7 9, coin ''c'' (-2) 1, coin ''d'' 7 3]]"
  have "view (filterCryptos no_dates [] 0 ''gainers'' ?h)
      = [coin ''b'' 7 9, coin ''d'' 7 3, coin ''a'' 1 5, coin ''c'' (-2) 1]"
    by (simp add: view_def filterCryptos_def array_spread_def array_sort_def array_slice_def
        alloc_def deref_def by_change_desc_def coin_def)
  moreover have "deref (snd (filterCryptos no_dates [] 0 ''gainers'' ?h)) 0 = deref ?h 0"
    using gainers_view [where d = no_dates and favs = "[]" and cd = 0 and h = ?h]
    by (auto split: prod.splits)
  ultimately show ?thesis
    by (simp add: deref_def)
qed

subsection \<open>C7: the hot and the meme view\<close>

text \<open>
  C7. The \<open>hot\<close> view is the fetched list filtered by a \<open>total_volume\<close> of at least
  1,000,000,000, and the \<open>meme\<close> view is the fetched list filtered by an \<open>id\<close> among
  dogecoin, shiba-inu, pepe, floki and bonk; a filtered list keeps the order.
\<close>

theorem hot_and_meme_views:
  "view (filterCryptos d favs cd ''hot'' h)
     = filter (\<lambda>c. total_volume c \<ge> 1000000000) (deref h cd) \<and>
   view (filterCryptos d favs cd ''meme'' h)
     = filter (\<lambda>c. id_c c \<in> {''dogecoin'', ''shiba-inu'', ''pepe'', ''floki'', ''bonk''})
         (deref h cd)"
  by (simp add: view_def filterCryptos_def array_filter_def alloc_def deref_def keep_filter
      includes_set HOT_THRESHOLD_def MEME_COINS_def)

theorem hot_and_meme_views_witness:
  "view (filterCryptos no_dates [] 0 ''hot''
      [[coin ''bitcoin'' 1 50000000000, coin ''pepe'' 7 999999999, coin ''tether'' 0 1000000000]])
     = [coin ''bitcoin'' 1 50000000000, coin ''tether'' 0 1000000000] \<and>
   view (filterCryptos no_dates [] 0 ''meme''
      [[coin ''bitcoin'' 1 50000000000, coin ''pepe'' 7 999999999, coin ''bonk'' 0 1000000000]])
     = [coin ''pepe'' 7 999999999, coin ''bonk'' 0 1000000000]"
  using
    hot_and_meme_views [of no_dates "[]" 0
      "[[coin ''bitcoin'' 1 50000000000, coin ''pepe'' 7 999999999, coin ''tether'' 0 1000000000]]"]
    hot_and_meme_views [of no_dates "[]" 0
      "[[coin ''bitcoin'' 1 50000000000, coin ''pepe'' 7 999999999, coin ''bonk'' 0 1000000000]]"]
  by (simp add: deref_def coin_def)

subsection \<open>C8: the favorites in local storage\<close>

text \<open>
  C8. In the browser, a click on a star stores the whole new favorites list, as JSON,
  under the key \<open>cryptoFavorites\<close> and changes no other key; the initial favorites read
  from that storage are the list that was written; and with no such key the initial
  favorites are the empty list.
\<close>

theorem favorites_round_trip:
  "(case click_star True cryptoId (st, ls) of
      (st', ls') \<Rightarrow>
        favorites st' = toggleFavorite cryptoId (favorites st) \<and>
        ls' = ls(''cryptoFavorites'' \<mapsto> JSON_stringify (favorites st')) \<and>
        initial_favorites True ls' = Some (favorites st')) \<and>
   initial_favorites True (persist_favorites True st ls) = Some (favorites st) \<and>
   (ls ''cryptoFavorites'' = None \<longrightarrow> initial_favorites True ls = Some [])"
  by (simp add: click_star_def persist_favorites_def initial_favorites_def Let_def
      JSON_roundtrip JSON_stringify_nonempty)

theorem favorites_round_trip_witness:
  "snd (click_star True ''pepe'' (initial_state [''bitcoin''], Map.empty)) ''cryptoFavorites''
     = Some (''['' @ [CHR 0x22] @ ''bitcoin'' @ [CHR 0x22] @ '','' @ [CHR 0x22] @ ''pepe''
          @ [CHR 0x22] @ '']'') \<and>
   initial_favorites True (snd (click_star True ''pepe'' (initial_state [''bitcoin''], Map.empty)))
     = Some [''bitcoin'', ''pepe''] \<and>
   initial_favorites True Map.empty = Some []"
proof -
  have "JSON_stringify [''bitcoin'', ''pepe'']
      = ''['' @ [CHR 0x22] @ ''bitcoin'' @ [CHR 0x22] @ '','' @ [CHR 0x22] @ ''pepe''
          @ [CHR 0x22] @ '']''"
    by (simp add: JSON_stringify_def quote_def quote_char_def)
  then show ?thesis
    using favorites_round_trip [of "''pepe''" "initial_state [''bitcoin'']" Map.empty]
    by (simp add: initial_state_def toggleFavorite_def split: prod.splits)
qed

subsection \<open>C9: no duplicate favorites\<close>

text \<open>
  C9. \<open>toggleFavorite\<close> keeps a list without duplicates free of duplicates: an
  identifier that is in the list is removed from it, every occurrence, and one that is
  not in the list is appended once.
\<close>

theorem toggleFavorite_distinct:
  "distinct prev \<Longrightarrow>
     distinct (toggleFavorite cryptoId prev) \<and>
     (cryptoId \<in> set prev \<longrightarrow>
        toggleFavorite cryptoId prev = filter (\<lambda>i. i \<noteq> cryptoId) prev \<and>
        count_list (toggleFavorite cryptoId prev) cryptoId = 0) \<and>
     (cryptoId \<notin> set prev \<longrightarrow>
        toggleFavorite cryptoId prev = prev @ [cryptoId] \<and>
        count_list (toggleFavorite cryptoId prev) cryptoId = 1)"
  by (auto simp: toggleFavorite_def includes_set keep_filter count_list_0_iff)

theorem toggleFavorite_distinct_witness:
  "distinct [''bitcoin'', ''pepe''] \<and>
   toggleFavorite ''pepe'' [''bitcoin'', ''pepe''] = [''bitcoin''] \<and>
   toggleFavorite ''bonk'' [''bitcoin'', ''pepe''] = [''bitcoin'', ''pepe'', ''bonk''] \<and>
   distinct (toggleFavorite ''bonk'' [''bitcoin'', ''pepe''])"
  using toggleFavorite_distinct [of "[''bitcoin'', ''pepe'']" "''bonk''"]
    toggleFavorite_distinct [of "[''bitcoin'', ''pepe'']" "''pepe''"]
  by (simp add: toggleFavorite_def)

end
